theory Spec2Isabelle
  imports Complex_Main
begin

section \<open>Scalar quantities of polyscope: \<^verbatim>\<open>scalar_quantity.ipp\<close>\<close>

text \<open>
  A shallow embedding of the class template \<^verbatim>\<open>ScalarQuantity<QuantityT>\<close>. The object is a
  record, each member function takes the object and returns the updated one, exceptions
  and undefined reads are values of the type \<open>fault\<close>.

  Numbers. A \<^verbatim>\<open>double\<close> of the source is a \<open>real\<close>: arithmetic on doubles and the literals
  \<^verbatim>\<open>0.02\<close> and \<^verbatim>\<open>0.7\<close> are exact, and there is no NaN or infinity. A \<^verbatim>\<open>float\<close> is a \<open>real\<close>
  too, and every place where the source stores a \<^verbatim>\<open>double\<close> into a \<^verbatim>\<open>float\<close> applies
  \<open>toFloat\<close>, the rounding to single precision. The members \<^verbatim>\<open>vizRange\<close>, \<^verbatim>\<open>isolineWidth\<close>
  and \<^verbatim>\<open>isolineDarkness\<close> are floats (the file hands their addresses to widgets that take
  \<^verbatim>\<open>float*\<close>, and builds a \<^verbatim>\<open>ScaledValue<float>\<close>), \<^verbatim>\<open>getValue\<close> returns a float; \<^verbatim>\<open>values\<close> and
  \<^verbatim>\<open>dataRange\<close> are doubles.
\<close>

subsection \<open>Narrowing a double to a float\<close>

text \<open>
  The conversion of the language on IEEE 754 hardware: the nearest single-precision
  number, a tie going to the one with the even significand. A float has 24 significant
  bits and exponents from \<open>-126\<close>; below that the spacing stays \<open>2 powr -149\<close>.
  \<open>roundHalfEven\<close> rounds to the nearest integer, \<open>floatExponent\<close> is the binary exponent
  of a positive number, \<open>toFloat x\<close> rounds \<open>x\<close> to a multiple of the spacing at its
  exponent.

  Where the magnitude is \<open>2 ^ 128 - 2 ^ 103\<close> or more the hardware answers infinity, which
  is not a real: \<open>toFloat\<close> is the conversion on the numbers that satisfy \<open>inFloatRange\<close>,
  and a statement below about a narrowed value assumes it of the value narrowed.
\<close>

definition roundHalfEven :: "real \<Rightarrow> int" where
  "roundHalfEven y =
     (let f = \<lfloor>y\<rfloor>; d = y - of_int f
      in if d < 1 / 2 then f else if 1 / 2 < d then f + 1 else if even f then f else f + 1)"

definition floatExponent :: "real \<Rightarrow> int" where
  "floatExponent a = max \<lfloor>log 2 a\<rfloor> (- 126)"

definition toFloat :: "real \<Rightarrow> real" where
  "toFloat x =
     (if x = 0 then 0
      else let ulp = 2 powr (of_int (floatExponent \<bar>x\<bar>) - 23)
           in sgn x * (of_int (roundHalfEven (\<bar>x\<bar> / ulp)) * ulp))"

definition inFloatRange :: "real \<Rightarrow> bool" where
  "inFloatRange x = (\<bar>x\<bar> < 2 ^ 128 - 2 ^ 103)"

text \<open>The conversion of a pair of doubles to a pair of floats, member by member.\<close>

definition toFloatPair :: "real \<times> real \<Rightarrow> real \<times> real" where
  "toFloatPair p = (toFloat (fst p), toFloat (snd p))"

subsection \<open>Data\<close>

datatype DataType = STANDARD | SYMMETRIC | MAGNITUDE

text \<open>
  Modelled from the spec: the class \<^verbatim>\<open>ScaledValue\<close> is not in the file. The spec's isoline
  width is a value tagged as either absolute or relative; the file builds it with
  \<^verbatim>\<open>ScaledValue<float>(size, isRelative)\<close> and with \<^verbatim>\<open>absoluteValue(x)\<close>. The field of the
  number is called \<open>scaled\<close> here; in the member \<^verbatim>\<open>isolineWidth\<close> it is a float.
\<close>

record ScaledValue =
  relativeFlag :: bool
  scaled :: real

text \<open>
  Modelled from the spec: the class \<^verbatim>\<open>render::AttributeBuffer\<close> behind \<^verbatim>\<open>scalarRenderBuffer\<close>
  is not in the file. The spec's device buffer is allocated, uploaded to, asked whether it
  holds data and asked for its size; the model keeps whether data has been set
  (\<^verbatim>\<open>isSet()\<close>) and the data uploaded last (its length is \<^verbatim>\<open>getDataSize()\<close>).
\<close>

record AttributeBuffer =
  isSet :: bool
  bufferData :: "real list"

text \<open>
  Modelled from the spec: the histogram widget \<^verbatim>\<open>hist\<close> is not in the file. It is kept as
  the colormap and the values it was last built from.
\<close>

record Histogram =
  histColormap :: string
  histValues :: "real list"

text \<open>
  The object. \<open>scalarRenderBuffer\<close> is the shared pointer: \<open>None\<close> is the null pointer.
  The last two fields are the effects on the surroundings: \<open>redrawRequested\<close> is set by
  \<^verbatim>\<open>requestRedraw()\<close>, \<open>refreshCount\<close> counts the calls of \<^verbatim>\<open>quantity.refresh()\<close>.
\<close>

record ScalarQuantity =
  "values" :: "real list"
  dataType :: DataType
  dataRange :: "real \<times> real"
  vizRange :: "real \<times> real"
  hist :: Histogram
  cMap :: string
  isolinesEnabled :: bool
  isolineWidth :: ScaledValue
  isolineDarkness :: real
  scalarRenderBuffer :: "AttributeBuffer option"
  redrawRequested :: bool
  refreshCount :: nat

text \<open>
  What a call can end with instead of a result: the \<^verbatim>\<open>std::runtime_error\<close> thrown by
  \<^verbatim>\<open>nValueSize\<close>, the failure of \<^verbatim>\<open>validateSize\<close>, and the two undefined reads of the file
  (through a null \<^verbatim>\<open>scalarRenderBuffer\<close>, and \<^verbatim>\<open>values[ind]\<close> past the end).
\<close>

datatype fault =
  RuntimeError string
  | SizeMismatch nat nat
  | NullDereference
  | OutOfRangeRead

text \<open>
  Modelled from the spec: the class \<^verbatim>\<open>PersistentValue\<close> is not in the file. A persisted
  field keeps the value the persistence layer holds for it, if there is one, and takes the
  default given in the constructor otherwise; \<open>PersistentCache\<close> is what the layer holds
  when the object is constructed. After construction a persisted field is read with
  \<^verbatim>\<open>get()\<close> and assigned like a plain member.
\<close>

record PersistentCache =
  cachedCMap :: "string option"
  cachedIsolinesEnabled :: "bool option"
  cachedIsolineWidth :: "ScaledValue option"
  cachedIsolineDarkness :: "real option"

subsection \<open>Collaborators outside the file\<close>

text \<open>
  Modelled from the spec: \<^verbatim>\<open>requestRedraw()\<close> and the owner's \<^verbatim>\<open>refresh()\<close> are not in the
  file. A redraw request is a flag the render loop reads on its next frame; a refresh asks
  the owner to recompute its derived render state, and is counted.
\<close>

definition requestRedraw :: "ScalarQuantity \<Rightarrow> ScalarQuantity" where
  "requestRedraw s = s\<lparr>redrawRequested := True\<rparr>"

definition refresh :: "ScalarQuantity \<Rightarrow> ScalarQuantity" where
  "refresh s = s\<lparr>refreshCount := Suc (refreshCount s)\<rparr>"

text \<open>Modelled from the spec: the initial value of a persisted field (see \<open>PersistentCache\<close>).\<close>

definition persistentInit :: "'a option \<Rightarrow> 'a \<Rightarrow> 'a" where
  "persistentInit cached dflt = (case cached of Some v \<Rightarrow> v | None \<Rightarrow> dflt)"

text \<open>
  Modelled from the spec: \<^verbatim>\<open>absoluteValue(x)\<close> tags \<open>x\<close> as an absolute value. The
  constructor passes it a double and keeps the result in the \<^verbatim>\<open>ScaledValue<float>\<close> member:
  \<open>toFloatScaled\<close> is that conversion.
\<close>

definition absoluteValue :: "real \<Rightarrow> ScaledValue" where
  "absoluteValue x = \<lparr>relativeFlag = False, scaled = x\<rparr>"

definition toFloatScaled :: "ScaledValue \<Rightarrow> ScaledValue" where
  "toFloatScaled v = v\<lparr>scaled := toFloat (scaled v)\<rparr>"

text \<open>
  Modelled from the spec: the operations of the device buffer. A generated buffer holds no
  data; \<^verbatim>\<open>setData\<close> uploads a sequence, after which the buffer is set and its size is the
  length of that sequence.
\<close>

definition generateAttributeBuffer :: AttributeBuffer where
  "generateAttributeBuffer = \<lparr>isSet = False, bufferData = []\<rparr>"

definition setData :: "real list \<Rightarrow> AttributeBuffer \<Rightarrow> AttributeBuffer" where
  "setData vs b = b\<lparr>isSet := True, bufferData := vs\<rparr>"

definition getDataSize :: "AttributeBuffer \<Rightarrow> nat" where
  "getDataSize b = length (bufferData b)"

text \<open>Modelled from the spec: the two calls the file makes on the histogram.\<close>

definition updateColormap :: "string \<Rightarrow> Histogram \<Rightarrow> Histogram" where
  "updateColormap c h = h\<lparr>histColormap := c\<rparr>"

definition buildHistogram :: "real list \<Rightarrow> Histogram \<Rightarrow> Histogram" where
  "buildHistogram vs h = h\<lparr>histValues := vs\<rparr>"

text \<open>
  Modelled from the spec: \<^verbatim>\<open>validateSize\<close> is not in the file. The spec has \<^verbatim>\<open>updateData\<close>
  fail with a size-mismatch error when the length of the new sequence differs from the
  current size; the fault records the expected and the given length.
\<close>

definition validateSize :: "real list \<Rightarrow> nat \<Rightarrow> fault option" where
  "validateSize inputData expectedSize =
     (if length inputData \<noteq> expectedSize
      then Some (SizeMismatch expectedSize (length inputData)) else None)"

text \<open>
  Modelled from the spec: \<^verbatim>\<open>standardizeArray<double, V>\<close> is not in the file. It converts
  the caller's array type to \<^verbatim>\<open>std::vector<double>\<close>, element by element; the caller's array
  is a list of reals here, so the conversion is the identity.
\<close>

definition standardizeArray :: "real list \<Rightarrow> real list" where
  "standardizeArray newValues = newValues"

subsection \<open>The member functions of the file\<close>

text \<open>
  \<^verbatim>\<open>resetMapRange\<close> computes a pair of doubles in each case and assigns it to the float pair
  \<^verbatim>\<open>vizRange\<close>.
\<close>

definition resetMapRange :: "ScalarQuantity \<Rightarrow> ScalarQuantity" where
  "resetMapRange s =
     requestRedraw
       (case dataType s of
          STANDARD \<Rightarrow> s\<lparr>vizRange := toFloatPair (dataRange s)\<rparr>
        | SYMMETRIC \<Rightarrow>
            (let absRange = max \<bar>fst (dataRange s)\<bar> \<bar>snd (dataRange s)\<bar>
             in s\<lparr>vizRange := toFloatPair (- absRange, absRange)\<rparr>)
        | MAGNITUDE \<Rightarrow> s\<lparr>vizRange := toFloatPair (0, snd (dataRange s))\<rparr>)"

text \<open>
  The constructor. \<open>robustMinMax\<close> (called with the trim fraction \<^verbatim>\<open>1e-5\<close>) and
  \<open>defaultColorMap\<close> are not in the file: they are parameters. The render buffer starts as
  the null pointer; nothing in the constructor allocates it.
\<close>

definition ScalarQuantity_ctor ::
  "(real list \<Rightarrow> real \<times> real) \<Rightarrow> (DataType \<Rightarrow> string) \<Rightarrow> PersistentCache \<Rightarrow>
   real list \<Rightarrow> DataType \<Rightarrow> ScalarQuantity" where
  "ScalarQuantity_ctor robustMinMax defaultColorMap cache values' dataType' =
     (let dr = robustMinMax values';
          cmap = persistentInit (cachedCMap cache) (defaultColorMap dataType');
          s = \<lparr>values = values',
               dataType = dataType',
               dataRange = dr,
               vizRange = (0, 0),
               hist = \<lparr>histColormap = [], histValues = []\<rparr>,
               cMap = cmap,
               isolinesEnabled = persistentInit (cachedIsolinesEnabled cache) False,
               isolineWidth = persistentInit (cachedIsolineWidth cache)
                                (toFloatScaled (absoluteValue ((snd dr - fst dr) * (2 / 100)))),
               isolineDarkness = persistentInit (cachedIsolineDarkness cache) (toFloat (7 / 10)),
               scalarRenderBuffer = None,
               redrawRequested = False,
               refreshCount = 0\<rparr>;
          s = s\<lparr>hist := updateColormap (cMap s) (hist s)\<rparr>;
          s = s\<lparr>hist := buildHistogram (values s) (hist s)\<rparr>
      in resetMapRange s)"

definition addScalarRules :: "ScalarQuantity \<Rightarrow> string list \<Rightarrow> string list" where
  "addScalarRules s rules =
     (let rules = rules @ [''SHADE_COLORMAP_VALUE''];
          rules = (if isolinesEnabled s then rules @ [''ISOLINE_STRIPE_VALUECOLOR'']
                   else rules)
      in rules)"

definition ensureRenderBuffersFilled :: "bool \<Rightarrow> ScalarQuantity \<Rightarrow> ScalarQuantity" where
  "ensureRenderBuffersFilled forceRefill s =
     (let (createdBuffer, s) =
            (case scalarRenderBuffer s of
               None \<Rightarrow> (True, s\<lparr>scalarRenderBuffer := Some generateAttributeBuffer\<rparr>)
             | Some b \<Rightarrow> (False, s))
      in if createdBuffer \<or> forceRefill
         then s\<lparr>scalarRenderBuffer := map_option (setData (values s)) (scalarRenderBuffer s)\<rparr>
         else s)"

definition valuesStoredInMemory :: "ScalarQuantity \<Rightarrow> bool" where
  "valuesStoredInMemory s = (values s \<noteq> [])"

definition nValueSize :: "ScalarQuantity \<Rightarrow> fault + nat" where
  "nValueSize s =
     (if valuesStoredInMemory s then Inr (length (values s))
      else (case scalarRenderBuffer s of
              None \<Rightarrow> Inl (RuntimeError ''buffer is not allocated when it should be'')
            | Some b \<Rightarrow>
                if \<not> isSet b
                then Inl (RuntimeError ''buffer is not allocated when it should be'')
                else Inr (getDataSize b)))"

text \<open>
  \<^verbatim>\<open>getValue\<close> checks nothing: \<^verbatim>\<open>values[ind]\<close> past the end and the call through a null
  \<^verbatim>\<open>scalarRenderBuffer\<close> are undefined behaviour, written out as faults. The element of
  \<^verbatim>\<open>values\<close> is a double and the function returns a float. What \<^verbatim>\<open>getData_float\<close> does on
  an allocated buffer belongs to the render backend: it is the parameter \<open>getData_float\<close>.
\<close>

definition getValue ::
  "(AttributeBuffer \<Rightarrow> nat \<Rightarrow> fault + real) \<Rightarrow> ScalarQuantity \<Rightarrow> nat \<Rightarrow> fault + real" where
  "getValue getData_float s ind =
     (if valuesStoredInMemory s
      then (if ind < length (values s) then Inr (toFloat (values s ! ind))
            else Inl OutOfRangeRead)
      else (case scalarRenderBuffer s of
              None \<Rightarrow> Inl NullDereference
            | Some b \<Rightarrow> getData_float b ind))"

definition dataUpdated :: "ScalarQuantity \<Rightarrow> ScalarQuantity" where
  "dataUpdated s = requestRedraw (ensureRenderBuffersFilled False s)"

text \<open>
  \<^verbatim>\<open>updateData\<close> returns the fault, if any, and the object as the call leaves it. The
  argument \<^verbatim>\<open>nValueSize()\<close> is evaluated first, then \<^verbatim>\<open>validateSize\<close> runs; an exception of
  either leaves the function before the assignment to \<^verbatim>\<open>values\<close>.
\<close>

definition updateData :: "real list \<Rightarrow> ScalarQuantity \<Rightarrow> fault option \<times> ScalarQuantity" where
  "updateData newValues s =
     (case nValueSize s of
        Inl e \<Rightarrow> (Some e, s)
      | Inr n \<Rightarrow>
          (case validateSize newValues n of
             Some e \<Rightarrow> (Some e, s)
           | None \<Rightarrow> (None, dataUpdated (s\<lparr>values := standardizeArray newValues\<rparr>))))"

definition setColorMap :: "string \<Rightarrow> ScalarQuantity \<Rightarrow> ScalarQuantity" where
  "setColorMap val s =
     (let s = s\<lparr>cMap := val\<rparr>;
          s = s\<lparr>hist := updateColormap (cMap s) (hist s)\<rparr>
      in requestRedraw (refresh s))"

definition getColorMap :: "ScalarQuantity \<Rightarrow> string" where
  "getColorMap s = cMap s"

text \<open>\<^verbatim>\<open>setMapRange\<close> takes a pair of doubles and assigns it to the float pair.\<close>

definition setMapRange :: "real \<times> real \<Rightarrow> ScalarQuantity \<Rightarrow> ScalarQuantity" where
  "setMapRange val s = requestRedraw (s\<lparr>vizRange := toFloatPair val\<rparr>)"

definition getMapRange :: "ScalarQuantity \<Rightarrow> real \<times> real" where
  "getMapRange s = vizRange s"

definition getDataRange :: "ScalarQuantity \<Rightarrow> real \<times> real" where
  "getDataRange s = dataRange s"

definition setIsolinesEnabled :: "bool \<Rightarrow> ScalarQuantity \<Rightarrow> ScalarQuantity" where
  "setIsolinesEnabled newEnabled s =
     requestRedraw (refresh (s\<lparr>isolinesEnabled := newEnabled\<rparr>))"

definition getIsolinesEnabled :: "ScalarQuantity \<Rightarrow> bool" where
  "getIsolinesEnabled s = isolinesEnabled s"

text \<open>
  \<^verbatim>\<open>setIsolineWidth\<close> builds \<^verbatim>\<open>ScaledValue<float>(size, isRelative)\<close> from the double \<open>size\<close>;
  \<^verbatim>\<open>setIsolineDarkness\<close> assigns the double \<open>val\<close> to the float member.
\<close>

definition setIsolineWidth :: "real \<Rightarrow> bool \<Rightarrow> ScalarQuantity \<Rightarrow> ScalarQuantity" where
  "setIsolineWidth size' isRelative s =
     (let s = s\<lparr>isolineWidth := \<lparr>relativeFlag = isRelative, scaled = toFloat size'\<rparr>\<rparr>;
          s = (if \<not> isolinesEnabled s then setIsolinesEnabled True s else s)
      in requestRedraw s)"


definition setIsolineDarkness :: "real \<Rightarrow> ScalarQuantity \<Rightarrow> ScalarQuantity" where
  "setIsolineDarkness val s =
     (let s = s\<lparr>isolineDarkness := toFloat val\<rparr>;
          s = (if \<not> isolinesEnabled s then setIsolinesEnabled True s else s)
      in requestRedraw s)"

definition getIsolineDarkness :: "ScalarQuantity \<Rightarrow> real" where
  "getIsolineDarkness s = isolineDarkness s"

text \<open>
  \<^verbatim>\<open>getScalarRenderBuffer\<close> calls \<^verbatim>\<open>ensureRenderBuffersFilled()\<close> with the default argument,
  which the header declares and the file does not show: it is the parameter
  \<open>forceRefillDefault\<close>.
\<close>

definition getScalarRenderBuffer ::
  "bool \<Rightarrow> ScalarQuantity \<Rightarrow> AttributeBuffer option \<times> ScalarQuantity" where
  "getScalarRenderBuffer forceRefillDefault s =
     (let s = ensureRenderBuffersFilled forceRefillDefault s
      in (scalarRenderBuffer s, s))"

definition renderBufferDataExternallyUpdated :: "ScalarQuantity \<Rightarrow> ScalarQuantity" where
  "renderBufferDataExternallyUpdated s = requestRedraw (s\<lparr>values := []\<rparr>)"

subsection \<open>The invariant of the spec and concrete inputs\<close>

text \<open>The ordering the spec asks of \<open>vizRange\<close>: \<open>low \<le> high\<close>.\<close>

definition vizRangeOrdered :: "ScalarQuantity \<Rightarrow> bool" where
  "vizRangeOrdered s = (fst (vizRange s) \<le> snd (vizRange s))"

text \<open>
  Concrete arguments for the constructor's parameters: a cache with no entry, a range
  function that answers \<open>(1, 3)\<close> (the extremes of the example data below) and a default
  colormap. \<open>exampleField\<close> is the object constructed from the values \<open>1, 2, 3\<close> with the
  \<^verbatim>\<open>STANDARD\<close> policy; \<open>fiveField\<close> holds five values. \<open>givenMinMax r\<close> is a range function
  that answers \<open>r\<close>: \<open>bigField\<close> has the data \<open>0, 16777217\<close> and their extremes as its
  range, \<open>wideField\<close> the data \<open>0, 5, 10\<close> and the range \<open>(0, 10)\<close>, \<open>negativeField\<close> the data
  \<open>-3, -2, -1\<close>, the range \<open>(-3, -1)\<close> and the \<^verbatim>\<open>MAGNITUDE\<close> policy.
\<close>

definition noCache :: PersistentCache where
  "noCache = \<lparr>cachedCMap = None, cachedIsolinesEnabled = None,
               cachedIsolineWidth = None, cachedIsolineDarkness = None\<rparr>"

definition exampleMinMax :: "real list \<Rightarrow> real \<times> real" where
  "exampleMinMax vs = (1, 3)"

definition exampleColorMap :: "DataType \<Rightarrow> string" where
  "exampleColorMap t = ''viridis''"

definition exampleField :: ScalarQuantity where
  "exampleField = ScalarQuantity_ctor exampleMinMax exampleColorMap noCache [1, 2, 3] STANDARD"

definition fiveField :: ScalarQuantity where
  "fiveField = ScalarQuantity_ctor exampleMinMax exampleColorMap noCache [1, 2, 3, 2, 1] STANDARD"

definition givenMinMax :: "real \<times> real \<Rightarrow> real list \<Rightarrow> real \<times> real" where
  "givenMinMax r vs = r"

definition bigField :: ScalarQuantity where
  "bigField =
     ScalarQuantity_ctor (givenMinMax (0, 16777217)) exampleColorMap noCache
       [0, 16777217] STANDARD"


definition negativeField :: ScalarQuantity where
  "negativeField =
     ScalarQuantity_ctor (givenMinMax (- 3, - 1)) exampleColorMap noCache
       [- 3, - 2, - 1] MAGNITUDE"

section \<open>Properties\<close>

subsection \<open>Narrowing\<close>

lemma toFloat_zero: "toFloat 0 = 0"
  by (simp add: toFloat_def)

lemma toFloat_minus: "toFloat (- x) = - toFloat x"
  by (simp add: toFloat_def Let_def)

lemma roundHalfEven_nonneg: "0 \<le> y \<Longrightarrow> 0 \<le> roundHalfEven y"
  by (simp add: roundHalfEven_def Let_def)

lemma toFloat_nonneg: "0 \<le> x \<Longrightarrow> 0 \<le> toFloat x"
  by (simp add: toFloat_def Let_def roundHalfEven_nonneg)

lemma toFloat_nonpos: "x \<le> 0 \<Longrightarrow> toFloat x \<le> 0"
  using toFloat_nonneg [of "- x"] by (simp add: toFloat_minus)

lemma roundHalfEven_of_int: "roundHalfEven (of_int n) = n"
  by (simp add: roundHalfEven_def)

text \<open>The exponent of a number between two neighbouring powers of two, and the value of
  \<open>toFloat\<close> there; the concrete values below follow from it.\<close>

lemma floatExponent_eq:
  assumes "2 ^ k \<le> a" and "a < 2 ^ Suc k"
  shows "floatExponent a = int k"
proof -
  have pos: "0 < a"
    using assms(1) by (smt (verit) zero_less_power)
  have "\<lfloor>log 2 a\<rfloor> = int k"
    using assms pos by (simp add: floor_log_eq_powr_iff powr_add powr_realpow)
  then show ?thesis
    by (simp add: floatExponent_def)
qed

lemma toFloat_eval:
  assumes "2 ^ k \<le> \<bar>x\<bar>" and "\<bar>x\<bar> < 2 ^ Suc k"
  shows "toFloat x =
           sgn x * (of_int (roundHalfEven (\<bar>x\<bar> / 2 powr (of_int (int k) - 23)))
                    * 2 powr (of_int (int k) - 23))"
proof -
  have "x \<noteq> 0"
    using assms(1) by (smt (verit) zero_less_power abs_zero)
  then show ?thesis
    by (simp add: toFloat_def Let_def floatExponent_eq [OF assms])
qed

lemma toFloat_1: "toFloat 1 = 1"
  using toFloat_eval [of 0 1] roundHalfEven_of_int [of "2 ^ 23"]
  by (simp add: powr_minus powr_numeral)

lemma toFloat_3: "toFloat 3 = 3"
  using toFloat_eval [of 1 3] roundHalfEven_of_int [of "3 * 2 ^ 22"]
  by (simp add: powr_minus powr_numeral)

lemma toFloat_5: "toFloat 5 = 5"
  using toFloat_eval [of 2 5] roundHalfEven_of_int [of "5 * 2 ^ 21"]
  by (simp add: powr_minus powr_numeral)

text \<open>\<open>16777217\<close> is \<open>2 ^ 24 + 1\<close>: it lies halfway between two floats and goes to the even
  one.\<close>

lemma toFloat_16777217: "toFloat 16777217 = 16777216"
proof -
  have r: "roundHalfEven (16777217 / 2) = 8388608"
    by (simp add: roundHalfEven_def Let_def)
  show ?thesis
    using toFloat_eval [of 24 16777217] r by (simp add: powr_numeral)
qed

subsection \<open>Narrowing keeps the order\<close>

text \<open>
  Rounding to the nearest integer is monotone; so is the exponent; a positive number rounds
  to a float between the power of two at its exponent and the next one. Together: \<open>toFloat\<close>
  is monotone.
\<close>

lemma roundHalfEven_mono: "a \<le> b \<Longrightarrow> roundHalfEven a \<le> roundHalfEven b"
proof -
  assume ab: "a \<le> b"
  have fl: "\<lfloor>a\<rfloor> \<le> \<lfloor>b\<rfloor>" using ab by (rule floor_mono)
  show ?thesis
  proof (cases "\<lfloor>a\<rfloor> = \<lfloor>b\<rfloor>")
    case True
    then show ?thesis using ab by (auto simp: roundHalfEven_def Let_def)
  next
    case False
    then have "\<lfloor>a\<rfloor> + 1 \<le> \<lfloor>b\<rfloor>" using fl by simp
    moreover have "roundHalfEven a \<le> \<lfloor>a\<rfloor> + 1"
      by (simp add: roundHalfEven_def Let_def)
    moreover have "\<lfloor>b\<rfloor> \<le> roundHalfEven b" by (simp add: roundHalfEven_def Let_def)
    ultimately show ?thesis by linarith
  qed
qed

lemma floatExponent_mono: "0 < a \<Longrightarrow> a \<le> b \<Longrightarrow> floatExponent a \<le> floatExponent b"
  unfolding floatExponent_def
  by (smt (verit) floor_mono log_le_cancel_iff max.mono order_refl)

lemma below_next_power: "0 < a \<Longrightarrow> a < 2 powr (of_int (floatExponent a) + 1)"
proof -
  assume pos: "0 < a"
  have "a = 2 powr (log 2 a)" using pos by simp
  also have "\<dots> < 2 powr (of_int \<lfloor>log 2 a\<rfloor> + 1)"
    by (rule powr_less_mono) (use real_of_int_floor_add_one_gt [of "log 2 a"] in simp_all)
  also have "\<dots> \<le> 2 powr (of_int (floatExponent a) + 1)"
    by (rule powr_mono) (simp_all add: floatExponent_def)
  finally show ?thesis .
qed

lemma above_power:
  "0 < a \<Longrightarrow> - 126 < floatExponent a \<Longrightarrow> 2 powr (of_int (floatExponent a)) \<le> a"
proof -
  assume pos: "0 < a" and e: "- 126 < floatExponent a"
  then have eq: "floatExponent a = \<lfloor>log 2 a\<rfloor>"
    by (simp add: floatExponent_def max_def split: if_splits)
  have "2 powr (of_int \<lfloor>log 2 a\<rfloor>) \<le> 2 powr (log 2 a)"
    by (rule powr_mono) simp_all
  then show ?thesis using pos eq by simp
qed

lemma toFloat_pos:
  "0 < x \<Longrightarrow>
   toFloat x = of_int (roundHalfEven (x / 2 powr (of_int (floatExponent x) - 23)))
               * 2 powr (of_int (floatExponent x) - 23)"
  by (simp add: toFloat_def Let_def)

lemma toFloat_upper:
  assumes "0 < x"
  shows "toFloat x \<le> 2 powr (of_int (floatExponent x) + 1)"
proof -
  let ?e = "floatExponent x"
  let ?u = "2 powr (of_int ?e - 23) :: real"
  have u: "0 < ?u" by simp
  have split: "2 powr (of_int ?e + 1) = 2 ^ 24 * ?u"
  proof -
    have "(2::real) powr (of_int ?e + 1) = 2 powr (24 + (of_int ?e - 23))"
      by (simp add: algebra_simps)
    also have "\<dots> = 2 powr 24 * ?u" by (rule powr_add)
    finally show ?thesis by (simp add: powr_numeral)
  qed
  have "x / ?u \<le> 2 ^ 24"
    using below_next_power [OF assms] u split by (simp add: pos_divide_le_eq)
  then have "roundHalfEven (x / ?u) \<le> roundHalfEven (of_int (2 ^ 24))"
    by (intro roundHalfEven_mono) simp
  then have "real_of_int (roundHalfEven (x / ?u)) \<le> real_of_int (2 ^ 24)"
    by (simp only: roundHalfEven_of_int of_int_le_iff)
  then have "real_of_int (roundHalfEven (x / ?u)) \<le> 2 ^ 24" by simp
  then have "real_of_int (roundHalfEven (x / ?u)) * ?u \<le> 2 ^ 24 * ?u"
    using u by (simp add: mult_right_mono)
  then show ?thesis using split toFloat_pos [OF assms] by simp
qed

lemma toFloat_lower:
  assumes "0 < x" and "- 126 < floatExponent x"
  shows "2 powr (of_int (floatExponent x)) \<le> toFloat x"
proof -
  let ?e = "floatExponent x"
  let ?u = "2 powr (of_int ?e - 23) :: real"
  have u: "0 < ?u" by simp
  have split: "2 powr (of_int ?e) = 2 ^ 23 * ?u"
  proof -
    have "(2::real) powr (of_int ?e) = 2 powr (23 + (of_int ?e - 23))" by simp
    also have "\<dots> = 2 powr 23 * ?u" by (rule powr_add)
    finally show ?thesis by (simp add: powr_numeral)
  qed
  have "2 ^ 23 \<le> x / ?u"
    using above_power [OF assms] u split by (simp add: pos_le_divide_eq)
  then have "roundHalfEven (of_int (2 ^ 23)) \<le> roundHalfEven (x / ?u)"
    by (intro roundHalfEven_mono) simp
  then have "real_of_int (2 ^ 23) \<le> real_of_int (roundHalfEven (x / ?u))"
    by (simp only: roundHalfEven_of_int of_int_le_iff)
  then have "2 ^ 23 \<le> real_of_int (roundHalfEven (x / ?u))" by simp
  then have "2 ^ 23 * ?u \<le> real_of_int (roundHalfEven (x / ?u)) * ?u"
    using u by (simp add: mult_right_mono)
  then show ?thesis using split toFloat_pos [OF assms(1)] by simp
qed

lemma toFloat_mono_pos:
  assumes "0 < x" and "x \<le> y"
  shows "toFloat x \<le> toFloat y"
proof -
  have ypos: "0 < y" using assms by simp
  have le: "floatExponent x \<le> floatExponent y" using assms by (rule floatExponent_mono)
  show ?thesis
  proof (cases "floatExponent x = floatExponent y")
    case True
    let ?u = "2 powr (of_int (floatExponent y) - 23) :: real"
    have "x / ?u \<le> y / ?u" using assms(2) by (simp add: divide_right_mono)
    then have "roundHalfEven (x / ?u) \<le> roundHalfEven (y / ?u)" by (rule roundHalfEven_mono)
    then have "real_of_int (roundHalfEven (x / ?u)) * ?u
                 \<le> real_of_int (roundHalfEven (y / ?u)) * ?u"
      by (simp add: mult_right_mono)
    then show ?thesis using toFloat_pos [OF assms(1)] toFloat_pos [OF ypos] True by simp
  next
    case False
    then have lt: "floatExponent x + 1 \<le> floatExponent y" using le by simp
    have "- 126 \<le> floatExponent x" by (simp add: floatExponent_def)
    then have big: "- 126 < floatExponent y" using lt by simp
    have "toFloat x \<le> 2 powr (of_int (floatExponent x) + 1)"
      by (rule toFloat_upper [OF assms(1)])
    also have "\<dots> \<le> 2 powr (of_int (floatExponent y))"
    proof -
      have "real_of_int (floatExponent x) + 1 \<le> real_of_int (floatExponent y)"
        using lt by linarith
      then show ?thesis by (intro powr_mono) simp_all
    qed
    also have "\<dots> \<le> toFloat y" by (rule toFloat_lower [OF ypos big])
    finally show ?thesis .
  qed
qed

lemma toFloat_mono:
  assumes "x \<le> y"
  shows "toFloat x \<le> toFloat y"
proof -
  consider "0 < x" | "x \<le> 0" "0 \<le> y" | "y < 0" by linarith
  then show ?thesis
  proof cases
    case 1
    then show ?thesis using assms by (rule toFloat_mono_pos)
  next
    case 2
    then show ?thesis using toFloat_nonpos [of x] toFloat_nonneg [of y] by linarith
  next
    case 3
    then have "0 < - y" "- y \<le> - x" using assms by simp_all
    then have "toFloat (- y) \<le> toFloat (- x)" by (rule toFloat_mono_pos)
    then show ?thesis by (simp add: toFloat_minus)
  qed
qed

lemma toFloat_abs: "toFloat \<bar>x\<bar> = \<bar>toFloat x\<bar>"
proof (cases "0 \<le> x")
  case True
  then show ?thesis using toFloat_nonneg [of x] by simp
next
  case False
  then show ?thesis using toFloat_nonpos [of x] by (simp add: toFloat_minus)
qed

subsection \<open>The concrete objects, evaluated\<close>

lemmas ctor_defs = ScalarQuantity_ctor_def exampleMinMax_def exampleColorMap_def noCache_def
  givenMinMax_def persistentInit_def absoluteValue_def toFloatScaled_def toFloatPair_def
  updateColormap_def buildHistogram_def resetMapRange_def requestRedraw_def Let_def

lemma exampleField_eq:
  "exampleField =
     \<lparr>values = [1, 2, 3], dataType = STANDARD, dataRange = (1, 3), vizRange = (1, 3),
      hist = \<lparr>histColormap = ''viridis'', histValues = [1, 2, 3]\<rparr>, cMap = ''viridis'',
      isolinesEnabled = False,
      isolineWidth = \<lparr>relativeFlag = False, scaled = toFloat (1 / 25)\<rparr>,
      isolineDarkness = toFloat (7 / 10), scalarRenderBuffer = None, redrawRequested = True,
      refreshCount = 0\<rparr>"
  by (simp add: exampleField_def ctor_defs toFloat_1 toFloat_3)

lemma fiveField_eq:
  "fiveField =
     \<lparr>values = [1, 2, 3, 2, 1], dataType = STANDARD, dataRange = (1, 3), vizRange = (1, 3),
      hist = \<lparr>histColormap = ''viridis'', histValues = [1, 2, 3, 2, 1]\<rparr>,
      cMap = ''viridis'', isolinesEnabled = False,
      isolineWidth = \<lparr>relativeFlag = False, scaled = toFloat (1 / 25)\<rparr>,
      isolineDarkness = toFloat (7 / 10), scalarRenderBuffer = None, redrawRequested = True,
      refreshCount = 0\<rparr>"
  by (simp add: fiveField_def ctor_defs toFloat_1 toFloat_3)

lemma bigField_fields:
  "dataType bigField = STANDARD"
  "dataRange bigField = (0, 16777217)"
  "vizRange bigField = (0, 16777216)"
  by (simp_all add: bigField_def ctor_defs toFloat_zero toFloat_16777217)


lemma negativeField_fields:
  "values negativeField = [- 3, - 2, - 1]"
  "dataType negativeField = MAGNITUDE"
  "dataRange negativeField = (- 3, - 1)"
  "vizRange negativeField = (0, - 1)"
  by (simp_all add: negativeField_def ctor_defs toFloat_zero toFloat_minus toFloat_1)

subsection \<open>What each function leaves alone\<close>

lemma requestRedraw_frame:
  "values (requestRedraw s) = values s"
  "dataRange (requestRedraw s) = dataRange s"
  "vizRange (requestRedraw s) = vizRange s"
  "scalarRenderBuffer (requestRedraw s) = scalarRenderBuffer s"
  by (simp_all add: requestRedraw_def)

lemma ensureRenderBuffersFilled_frame:
  "values (ensureRenderBuffersFilled f s) = values s"
  "dataRange (ensureRenderBuffersFilled f s) = dataRange s"
  "vizRange (ensureRenderBuffersFilled f s) = vizRange s"
  by (simp_all add: ensureRenderBuffersFilled_def split: option.splits)

text \<open>
  The two paths of \<^verbatim>\<open>ensureRenderBuffersFilled\<close>: a buffer that exists is written only when
  \<open>forceRefill\<close> is set; a missing buffer is created and filled from \<open>values\<close>.
\<close>

lemma ensureRenderBuffersFilled_existing:
  "scalarRenderBuffer s = Some b \<Longrightarrow>
   scalarRenderBuffer (ensureRenderBuffersFilled f s)
     = Some (if f then setData (values s) b else b)"
  by (simp add: ensureRenderBuffersFilled_def)

lemma ensureRenderBuffersFilled_fresh:
  "scalarRenderBuffer s = None \<Longrightarrow>
   scalarRenderBuffer (ensureRenderBuffersFilled f s)
     = Some \<lparr>isSet = True, bufferData = values s\<rparr>"
  by (simp add: ensureRenderBuffersFilled_def generateAttributeBuffer_def setData_def)

lemma setIsolinesEnabled_vizRange:
  "vizRange (setIsolinesEnabled e s) = vizRange s"
  by (simp add: setIsolinesEnabled_def requestRedraw_def refresh_def)

lemma updateData_frame:
  "dataRange (snd (updateData newValues s)) = dataRange s"
  "vizRange (snd (updateData newValues s)) = vizRange s"
  by (simp_all add: updateData_def dataUpdated_def requestRedraw_frame
        ensureRenderBuffersFilled_frame split: sum.splits option.splits)

lemma updateData_keeps_existing_buffer:
  "scalarRenderBuffer s = Some b \<Longrightarrow>
   scalarRenderBuffer (snd (updateData newValues s)) = Some b"
  by (simp add: updateData_def dataUpdated_def requestRedraw_frame
        ensureRenderBuffersFilled_existing split: sum.splits option.splits)

lemma ctor_fields:
  "values (ScalarQuantity_ctor robustMinMax defaultColorMap cache vs dt) = vs"
  "scalarRenderBuffer (ScalarQuantity_ctor robustMinMax defaultColorMap cache vs dt) = None"
  "dataType (ScalarQuantity_ctor robustMinMax defaultColorMap cache vs dt) = dt"
  "dataRange (ScalarQuantity_ctor robustMinMax defaultColorMap cache vs dt) = robustMinMax vs"
  by (cases dt; simp add: ScalarQuantity_ctor_def resetMapRange_def requestRedraw_def Let_def)+

subsection \<open>The pair that the range policy stores\<close>

lemma resetMapRange_vizRange:
  "vizRange (resetMapRange s) =
     (case dataType s of
        STANDARD \<Rightarrow> (toFloat (fst (dataRange s)), toFloat (snd (dataRange s)))
      | SYMMETRIC \<Rightarrow> (- toFloat (max \<bar>fst (dataRange s)\<bar> \<bar>snd (dataRange s)\<bar>),
                      toFloat (max \<bar>fst (dataRange s)\<bar> \<bar>snd (dataRange s)\<bar>))
      | MAGNITUDE \<Rightarrow> (0, toFloat (snd (dataRange s))))"
  by (cases "dataType s")
     (simp_all add: resetMapRange_def requestRedraw_def Let_def toFloatPair_def
        toFloat_minus toFloat_zero)

lemma ctor_vizRange:
  "vizRange (ScalarQuantity_ctor robustMinMax defaultColorMap cache vs dt) =
     (case dt of
        STANDARD \<Rightarrow> (toFloat (fst (robustMinMax vs)), toFloat (snd (robustMinMax vs)))
      | SYMMETRIC \<Rightarrow> (- toFloat (max \<bar>fst (robustMinMax vs)\<bar> \<bar>snd (robustMinMax vs)\<bar>),
                      toFloat (max \<bar>fst (robustMinMax vs)\<bar> \<bar>snd (robustMinMax vs)\<bar>))
      | MAGNITUDE \<Rightarrow> (0, toFloat (snd (robustMinMax vs))))"
  by (cases dt)
     (simp_all add: ScalarQuantity_ctor_def resetMapRange_def requestRedraw_def Let_def
        toFloatPair_def toFloat_minus toFloat_zero)

lemma policy_ordered:
  "(case dt of
      STANDARD \<Rightarrow> (toFloat lo, toFloat hi)
    | SYMMETRIC \<Rightarrow> (- toFloat (max \<bar>lo\<bar> \<bar>hi\<bar>), toFloat (max \<bar>lo\<bar> \<bar>hi\<bar>))
    | MAGNITUDE \<Rightarrow> (0, toFloat hi)) = p \<Longrightarrow>
   fst p \<le> snd p \<longleftrightarrow>
     (case dt of
        STANDARD \<Rightarrow> toFloat lo \<le> toFloat hi
      | SYMMETRIC \<Rightarrow> True
      | MAGNITUDE \<Rightarrow> 0 \<le> toFloat hi)"
proof -
  have "0 \<le> toFloat (max \<bar>lo\<bar> \<bar>hi\<bar>)"
    by (rule toFloat_nonneg) simp
  then show "(case dt of
      STANDARD \<Rightarrow> (toFloat lo, toFloat hi)
    | SYMMETRIC \<Rightarrow> (- toFloat (max \<bar>lo\<bar> \<bar>hi\<bar>), toFloat (max \<bar>lo\<bar> \<bar>hi\<bar>))
    | MAGNITUDE \<Rightarrow> (0, toFloat hi)) = p \<Longrightarrow>
   fst p \<le> snd p \<longleftrightarrow>
     (case dt of
        STANDARD \<Rightarrow> toFloat lo \<le> toFloat hi
      | SYMMETRIC \<Rightarrow> True
      | MAGNITUDE \<Rightarrow> 0 \<le> toFloat hi)"
    by (cases dt) auto
qed

subsection \<open>The size of the data and reads without data\<close>

lemma nValueSize_authoritative:
  "nValueSize s =
     (if values s \<noteq> [] then Inr (length (values s))
      else case scalarRenderBuffer s of
             None \<Rightarrow> Inl (RuntimeError ''buffer is not allocated when it should be'')
           | Some b \<Rightarrow>
               if isSet b then Inr (length (bufferData b))
               else Inl (RuntimeError ''buffer is not allocated when it should be''))"
  by (simp add: nValueSize_def valuesStoredInMemory_def getDataSize_def split: option.splits)

lemma nValueSize_throws_without_data:
  assumes "values s = []"
      and "scalarRenderBuffer s = None \<or> (\<exists>b. scalarRenderBuffer s = Some b \<and> \<not> isSet b)"
  shows "nValueSize s = Inl (RuntimeError ''buffer is not allocated when it should be'')"
  using assms by (auto simp: nValueSize_authoritative)

lemma getValue_null_buffer:
  assumes "values s = []" and "scalarRenderBuffer s = None"
  shows "getValue getData_float s ind = Inl NullDereference"
  using assms by (simp add: getValue_def valuesStoredInMemory_def)

section \<open>The claims\<close>

text \<open>
  C1, as the spec states it, fails: \<^verbatim>\<open>vizRange\<close> is a pair of floats, so the pair that
  \<^verbatim>\<open>resetMapRange()\<close> computes is narrowed when it is stored. With the \<^verbatim>\<open>STANDARD\<close> policy
  and the data range \<open>(0, 16777217)\<close> the call leaves \<open>(0, 16777216)\<close> in \<open>vizRange\<close>, which
  is not \<open>dataRange\<close>.
\<close>

theorem resetMapRange_narrows_counterexample:
  "dataType bigField = STANDARD
   \<and> dataRange bigField = (0, 16777217)
   \<and> inFloatRange 0 \<and> inFloatRange 16777217
   \<and> vizRange (resetMapRange bigField) = (0, 16777216)
   \<and> vizRange (resetMapRange bigField) \<noteq> dataRange bigField"
  by (simp add: resetMapRange_vizRange bigField_fields toFloat_zero toFloat_16777217
        inFloatRange_def)

text \<open>
  C1, amended. \<^verbatim>\<open>resetMapRange()\<close> sets \<open>vizRange\<close> from \<open>dataType\<close> and \<open>dataRange\<close> alone,
  to the pair of the policy narrowed to float: \<^verbatim>\<open>STANDARD\<close> gives the two bounds of
  \<open>dataRange\<close> narrowed, \<^verbatim>\<open>SYMMETRIC\<close> gives \<open>(-r, r)\<close> with \<open>r\<close> the narrowed larger absolute
  value of the two bounds, \<^verbatim>\<open>MAGNITUDE\<close> gives \<open>0\<close> and the narrowed upper bound (for a
  \<open>dataRange\<close> within the range of floats); where the bounds of \<open>dataRange\<close> are floats
  already, these are the pairs of the spec
  (\<open>dataRange\<close>, \<open>(-r, r)\<close>, \<open>(0, dataRange.max)\<close>). The result is the same whatever
  \<open>vizRange\<close> was before, and a second call changes nothing.
\<close>

theorem resetMapRange_policy_narrowed:
  "(inFloatRange (fst (dataRange s)) \<and> inFloatRange (snd (dataRange s)) \<longrightarrow>
      vizRange (resetMapRange s) =
        (case dataType s of
           STANDARD \<Rightarrow> (toFloat (fst (dataRange s)), toFloat (snd (dataRange s)))
         | SYMMETRIC \<Rightarrow>
             (- toFloat (max \<bar>fst (dataRange s)\<bar> \<bar>snd (dataRange s)\<bar>),
              toFloat (max \<bar>fst (dataRange s)\<bar> \<bar>snd (dataRange s)\<bar>))
         | MAGNITUDE \<Rightarrow> (0, toFloat (snd (dataRange s))))
      \<and> (toFloat (fst (dataRange s)) = fst (dataRange s)
           \<and> toFloat (snd (dataRange s)) = snd (dataRange s) \<longrightarrow>
         vizRange (resetMapRange s) =
           (case dataType s of
              STANDARD \<Rightarrow> dataRange s
            | SYMMETRIC \<Rightarrow>
                (- max \<bar>fst (dataRange s)\<bar> \<bar>snd (dataRange s)\<bar>,
                 max \<bar>fst (dataRange s)\<bar> \<bar>snd (dataRange s)\<bar>)
            | MAGNITUDE \<Rightarrow> (0, snd (dataRange s)))))
   \<and> vizRange (resetMapRange (s\<lparr>vizRange := v\<rparr>)) = vizRange (resetMapRange s)
   \<and> resetMapRange (resetMapRange s) = resetMapRange s"
proof -
  have exact: "toFloat (max \<bar>fst (dataRange s)\<bar> \<bar>snd (dataRange s)\<bar>)
                 = max \<bar>fst (dataRange s)\<bar> \<bar>snd (dataRange s)\<bar>"
    if "toFloat (fst (dataRange s)) = fst (dataRange s)"
      and "toFloat (snd (dataRange s)) = snd (dataRange s)"
    using that toFloat_abs [of "fst (dataRange s)"] toFloat_abs [of "snd (dataRange s)"]
    by (simp add: max_def)
  have second: "vizRange (resetMapRange s) =
        (case dataType s of
           STANDARD \<Rightarrow> dataRange s
         | SYMMETRIC \<Rightarrow>
             (- max \<bar>fst (dataRange s)\<bar> \<bar>snd (dataRange s)\<bar>,
              max \<bar>fst (dataRange s)\<bar> \<bar>snd (dataRange s)\<bar>)
         | MAGNITUDE \<Rightarrow> (0, snd (dataRange s)))"
    if "toFloat (fst (dataRange s)) = fst (dataRange s)"
      and "toFloat (snd (dataRange s)) = snd (dataRange s)"
    using that exact [OF that]
    by (cases "dataType s") (simp_all add: resetMapRange_vizRange)
  have indep: "vizRange (resetMapRange (s\<lparr>vizRange := v\<rparr>)) = vizRange (resetMapRange s)"
    by (cases "dataType s") (simp_all add: resetMapRange_vizRange)
  have idem: "resetMapRange (resetMapRange s) = resetMapRange s"
    by (cases "dataType s") (simp_all add: resetMapRange_def requestRedraw_def Let_def)
  show ?thesis
    using second indep idem by (simp add: resetMapRange_vizRange)
qed

theorem resetMapRange_policy_narrowed_witness:
  "inFloatRange 1 \<and> inFloatRange 3
   \<and> dataRange exampleField = (1, 3)
   \<and> vizRange (resetMapRange exampleField) = (1, 3)
   \<and> vizRange (resetMapRange (exampleField\<lparr>vizRange := (7, 9)\<rparr>)) = (1, 3)"
proof -
  have r: "inFloatRange 1" "inFloatRange 3"
    by (simp_all add: inFloatRange_def)
  have d: "dataRange exampleField = (1, 3)" "dataType exampleField = STANDARD"
    by (simp_all add: exampleField_eq)
  show ?thesis
    using r d resetMapRange_policy_narrowed [of exampleField "(7, 9)"]
    by (simp add: toFloat_1 toFloat_3)
qed

text \<open>
  C2, as the spec states it, fails. \<^verbatim>\<open>setMapRange\<close> stores the pair it is given, narrowed
  and not reordered: the pair \<open>(5, 1)\<close> leaves \<open>vizRange\<close> with its low end above its high
  end, on an object whose \<open>vizRange\<close> was ordered before the call. The range policy does
  not order the pair either: with the \<^verbatim>\<open>MAGNITUDE\<close> policy and the data range \<open>(-3, -1)\<close>
  the constructor, and \<^verbatim>\<open>resetMapRange()\<close> after it, leave \<open>(0, -1)\<close>.
\<close>

theorem setMapRange_unordered_counterexample:
  "vizRangeOrdered exampleField
   \<and> \<not> vizRangeOrdered (setMapRange (5, 1) exampleField)
   \<and> dataType negativeField = MAGNITUDE
   \<and> dataRange negativeField = (- 3, - 1)
   \<and> \<not> vizRangeOrdered negativeField
   \<and> \<not> vizRangeOrdered (resetMapRange negativeField)"
  by (simp add: vizRangeOrdered_def setMapRange_def requestRedraw_def toFloatPair_def
        exampleField_eq negativeField_fields resetMapRange_vizRange
        toFloat_1 toFloat_5 toFloat_minus)

text \<open>
  C2, amended. \<^verbatim>\<open>setMapRange(val)\<close> makes \<open>vizRange\<close> equal to \<open>val\<close> narrowed to float, so
  the result is ordered exactly when the narrowed pair is, and that is so whenever \<open>val\<close>
  is ordered. \<^verbatim>\<open>resetMapRange()\<close>, and the constructor, which ends with it, give an
  ordered \<open>vizRange\<close> exactly when the narrowed bounds of \<open>dataRange\<close> are ordered
  (\<^verbatim>\<open>STANDARD\<close>), always (\<^verbatim>\<open>SYMMETRIC\<close>), exactly when the narrowed upper bound is not
  negative (\<^verbatim>\<open>MAGNITUDE\<close>); that is so whenever \<open>dataRange\<close> is ordered (\<^verbatim>\<open>STANDARD\<close>), and
  whenever its upper bound is not negative (\<^verbatim>\<open>MAGNITUDE\<close>). Every other operation that
  changes the object (\<^verbatim>\<open>updateData\<close>, \<^verbatim>\<open>setColorMap\<close>, the three isoline setters,
  \<^verbatim>\<open>getScalarRenderBuffer\<close>, \<^verbatim>\<open>renderBufferDataExternallyUpdated\<close>) leaves \<open>vizRange\<close> as it
  was.
\<close>

theorem vizRange_by_operation:
  "(inFloatRange (fst val) \<and> inFloatRange (snd val) \<longrightarrow>
      vizRange (setMapRange val s) = (toFloat (fst val), toFloat (snd val))
      \<and> (vizRangeOrdered (setMapRange val s) \<longleftrightarrow> toFloat (fst val) \<le> toFloat (snd val))
      \<and> (fst val \<le> snd val \<longrightarrow> vizRangeOrdered (setMapRange val s)))
   \<and> (inFloatRange (fst (dataRange s)) \<and> inFloatRange (snd (dataRange s)) \<longrightarrow>
      (vizRangeOrdered (resetMapRange s) \<longleftrightarrow>
         (case dataType s of
            STANDARD \<Rightarrow> toFloat (fst (dataRange s)) \<le> toFloat (snd (dataRange s))
          | SYMMETRIC \<Rightarrow> True
          | MAGNITUDE \<Rightarrow> 0 \<le> toFloat (snd (dataRange s))))
      \<and> ((case dataType s of
             STANDARD \<Rightarrow> fst (dataRange s) \<le> snd (dataRange s)
           | SYMMETRIC \<Rightarrow> True
           | MAGNITUDE \<Rightarrow> 0 \<le> snd (dataRange s)) \<longrightarrow>
          vizRangeOrdered (resetMapRange s)))
   \<and> (inFloatRange (fst (robustMinMax vs)) \<and> inFloatRange (snd (robustMinMax vs)) \<longrightarrow>
      (vizRangeOrdered (ScalarQuantity_ctor robustMinMax defaultColorMap cache vs dt) \<longleftrightarrow>
         (case dt of
            STANDARD \<Rightarrow> toFloat (fst (robustMinMax vs)) \<le> toFloat (snd (robustMinMax vs))
          | SYMMETRIC \<Rightarrow> True
          | MAGNITUDE \<Rightarrow> 0 \<le> toFloat (snd (robustMinMax vs))))
      \<and> ((case dt of
             STANDARD \<Rightarrow> fst (robustMinMax vs) \<le> snd (robustMinMax vs)
           | SYMMETRIC \<Rightarrow> True
           | MAGNITUDE \<Rightarrow> 0 \<le> snd (robustMinMax vs)) \<longrightarrow>
          vizRangeOrdered (ScalarQuantity_ctor robustMinMax defaultColorMap cache vs dt)))
   \<and> vizRange (snd (updateData newValues s)) = vizRange s
   \<and> vizRange (setColorMap c s) = vizRange s
   \<and> vizRange (setIsolineWidth w isRelative s) = vizRange s
   \<and> vizRange (setIsolineDarkness d s) = vizRange s
   \<and> vizRange (setIsolinesEnabled e s) = vizRange s
   \<and> vizRange (snd (getScalarRenderBuffer forceRefillDefault s)) = vizRange s
   \<and> vizRange (renderBufferDataExternallyUpdated s) = vizRange s"
proof -
  have set: "vizRange (setMapRange val s) = (toFloat (fst val), toFloat (snd val))"
    by (simp add: setMapRange_def requestRedraw_def toFloatPair_def)
  have set_mono: "fst val \<le> snd val \<longrightarrow> vizRangeOrdered (setMapRange val s)"
    by (simp add: vizRangeOrdered_def set toFloat_mono)
  have reset: "vizRangeOrdered (resetMapRange s) \<longleftrightarrow>
         (case dataType s of
            STANDARD \<Rightarrow> toFloat (fst (dataRange s)) \<le> toFloat (snd (dataRange s))
          | SYMMETRIC \<Rightarrow> True
          | MAGNITUDE \<Rightarrow> 0 \<le> toFloat (snd (dataRange s)))"
    unfolding vizRangeOrdered_def by (rule policy_ordered) (simp add: resetMapRange_vizRange)
  have reset_mono: "(case dataType s of
             STANDARD \<Rightarrow> fst (dataRange s) \<le> snd (dataRange s)
           | SYMMETRIC \<Rightarrow> True
           | MAGNITUDE \<Rightarrow> 0 \<le> snd (dataRange s)) \<longrightarrow>
          vizRangeOrdered (resetMapRange s)"
    unfolding reset by (cases "dataType s") (simp_all add: toFloat_mono toFloat_nonneg)
  have ctor: "vizRangeOrdered (ScalarQuantity_ctor robustMinMax defaultColorMap cache vs dt) \<longleftrightarrow>
         (case dt of
            STANDARD \<Rightarrow> toFloat (fst (robustMinMax vs)) \<le> toFloat (snd (robustMinMax vs))
          | SYMMETRIC \<Rightarrow> True
          | MAGNITUDE \<Rightarrow> 0 \<le> toFloat (snd (robustMinMax vs)))"
    unfolding vizRangeOrdered_def by (rule policy_ordered) (simp add: ctor_vizRange)
  have ctor_mono: "(case dt of
             STANDARD \<Rightarrow> fst (robustMinMax vs) \<le> snd (robustMinMax vs)
           | SYMMETRIC \<Rightarrow> True
           | MAGNITUDE \<Rightarrow> 0 \<le> snd (robustMinMax vs)) \<longrightarrow>
          vizRangeOrdered (ScalarQuantity_ctor robustMinMax defaultColorMap cache vs dt)"
    unfolding ctor by (cases dt) (simp_all add: toFloat_mono toFloat_nonneg)
  have upd: "vizRange (snd (updateData newValues s)) = vizRange s"
    by (rule updateData_frame)
  have cm: "vizRange (setColorMap c s) = vizRange s"
    by (simp add: setColorMap_def requestRedraw_def refresh_def Let_def)
  have iw: "vizRange (setIsolineWidth w isRelative s) = vizRange s"
    by (simp add: setIsolineWidth_def requestRedraw_frame setIsolinesEnabled_vizRange Let_def)
  have idk: "vizRange (setIsolineDarkness d s) = vizRange s"
    by (simp add: setIsolineDarkness_def requestRedraw_frame setIsolinesEnabled_vizRange
          Let_def)
  have ie: "vizRange (setIsolinesEnabled e s) = vizRange s"
    by (rule setIsolinesEnabled_vizRange)
  have gb: "vizRange (snd (getScalarRenderBuffer forceRefillDefault s)) = vizRange s"
    by (simp add: getScalarRenderBuffer_def Let_def ensureRenderBuffersFilled_frame)
  have ext: "vizRange (renderBufferDataExternallyUpdated s) = vizRange s"
    by (simp add: renderBufferDataExternallyUpdated_def requestRedraw_def)
  have first: "vizRangeOrdered (setMapRange val s) \<longleftrightarrow> toFloat (fst val) \<le> toFloat (snd val)"
    by (simp add: vizRangeOrdered_def set)
  show ?thesis
    using set first set_mono reset reset_mono ctor ctor_mono upd cm iw idk ie gb ext
    by blast
qed

theorem vizRange_by_operation_witness:
  "inFloatRange 1 \<and> inFloatRange 3 \<and> inFloatRange 5
   \<and> vizRange (setMapRange (1, 5) exampleField) = (1, 5)
   \<and> vizRangeOrdered (setMapRange (1, 5) exampleField)
   \<and> vizRangeOrdered (resetMapRange exampleField)
   \<and> vizRangeOrdered
       (ScalarQuantity_ctor exampleMinMax exampleColorMap noCache [1, 2, 3] STANDARD)
   \<and> vizRange (snd (updateData [4, 5, 6] exampleField)) = (1, 3)
   \<and> vizRange (setIsolineDarkness 5 exampleField) = (1, 3)"
proof -
  have r: "inFloatRange 1" "inFloatRange 3" "inFloatRange 5"
    by (simp_all add: inFloatRange_def)
  have d: "dataType exampleField = STANDARD" "dataRange exampleField = (1, 3)"
    "vizRange exampleField = (1, 3)"
    by (simp_all add: exampleField_eq)
  show ?thesis
    using r d
      vizRange_by_operation [where val = "(1, 5)" and s = exampleField
        and robustMinMax = exampleMinMax and vs = "[1, 2, 3]" and dt = STANDARD
        and defaultColorMap = exampleColorMap and cache = noCache
        and newValues = "[4, 5, 6]" and d = 5]
    by (simp add: toFloat_1 toFloat_3 toFloat_5 exampleMinMax_def)
qed

text \<open>
  C3. When the length of the new sequence differs from the current size of the object
  (the length of \<open>values\<close> when it is not empty, the size of the device buffer otherwise),
  \<^verbatim>\<open>updateData\<close> ends with the size-mismatch fault and the object is the one it was called
  on: \<open>values\<close>, \<open>dataRange\<close>, \<open>vizRange\<close> and the render buffer are all as before.
\<close>

theorem updateData_size_mismatch:
  assumes "values s \<noteq> [] \<and> n = length (values s)
           \<or> values s = [] \<and>
             (\<exists>b. scalarRenderBuffer s = Some b \<and> isSet b \<and> n = length (bufferData b))"
      and "length newValues \<noteq> n"
  shows "updateData newValues s = (Some (SizeMismatch n (length newValues)), s)"
proof -
  have "nValueSize s = Inr n"
    using assms(1) by (auto simp: nValueSize_authoritative)
  then show ?thesis
    using assms(2) by (simp add: updateData_def validateSize_def)
qed

theorem updateData_size_mismatch_witness:
  "length (values fiveField) = 5
   \<and> updateData [1, 2, 3, 4] fiveField = (Some (SizeMismatch 5 4), fiveField)"
proof -
  have a: "values fiveField \<noteq> [] \<and> 5 = length (values fiveField)
           \<or> values fiveField = [] \<and>
             (\<exists>b. scalarRenderBuffer fiveField = Some b \<and> isSet b
                  \<and> 5 = length (bufferData b))"
    by (simp add: fiveField_eq)
  have b: "length [1, 2, 3, 4 :: real] \<noteq> 5"
    by simp
  show ?thesis
    using updateData_size_mismatch [OF a b] by (simp add: fiveField_eq)
qed

text \<open>
  C4 asks that a successful \<^verbatim>\<open>updateData\<close> on an object whose render buffer exists leaves
  the new values in the buffer. The code does not: \<^verbatim>\<open>dataUpdated\<close> calls
  \<^verbatim>\<open>ensureRenderBuffersFilled(false)\<close>, which writes to an existing buffer only when
  \<open>forceRefill\<close> is set (\<open>updateData_keeps_existing_buffer\<close>). On the object built from
  \<open>1, 2, 3\<close> whose buffer was created by \<^verbatim>\<open>getScalarRenderBuffer\<close> (whatever its default
  argument), \<^verbatim>\<open>updateData\<close> with \<open>4, 5, 6\<close> succeeds and replaces \<open>values\<close>, and the buffer
  still holds \<open>1, 2, 3\<close>.
\<close>

theorem updateData_stale_buffer:
  "scalarRenderBuffer (snd (getScalarRenderBuffer forceRefillDefault exampleField))
     = Some \<lparr>isSet = True, bufferData = [1, 2, 3]\<rparr>
   \<and> fst (updateData [4, 5, 6] (snd (getScalarRenderBuffer forceRefillDefault exampleField))) = None
   \<and> values (snd (updateData [4, 5, 6] (snd (getScalarRenderBuffer forceRefillDefault exampleField))))
       = [4, 5, 6]
   \<and> scalarRenderBuffer
       (snd (updateData [4, 5, 6] (snd (getScalarRenderBuffer forceRefillDefault exampleField))))
       = Some \<lparr>isSet = True, bufferData = [1, 2, 3]\<rparr>"
  by (simp add: exampleField_eq getScalarRenderBuffer_def ensureRenderBuffersFilled_def
        generateAttributeBuffer_def setData_def updateData_def nValueSize_def
        valuesStoredInMemory_def validateSize_def standardizeArray_def dataUpdated_def
        requestRedraw_def Let_def)




text \<open>
  C6 asks that \<^verbatim>\<open>size()\<close> and \<^verbatim>\<open>getValue(index)\<close> both fail with the consistency error when
  \<open>values\<close> is empty and the device buffer is missing or unfilled. \<^verbatim>\<open>nValueSize\<close> does
  (\<open>nValueSize_throws_without_data\<close>); \<^verbatim>\<open>getValue\<close> has no such check. On the object built
  from \<open>1, 2, 3\<close> and then put in buffer-only mode, with the buffer never created,
  \<^verbatim>\<open>nValueSize\<close> throws and \<^verbatim>\<open>getValue(0)\<close> goes through the null pointer.
\<close>

theorem getValue_unguarded:
  "values (renderBufferDataExternallyUpdated exampleField) = []
   \<and> scalarRenderBuffer (renderBufferDataExternallyUpdated exampleField) = None
   \<and> nValueSize (renderBufferDataExternallyUpdated exampleField)
       = Inl (RuntimeError ''buffer is not allocated when it should be'')
   \<and> getValue getData_float (renderBufferDataExternallyUpdated exampleField) 0
       = Inl NullDereference"
  by (simp add: exampleField_eq renderBufferDataExternallyUpdated_def requestRedraw_def
        nValueSize_def getValue_def valuesStoredInMemory_def)

text \<open>
  C7, as the spec states it, fails in what is stored: the width and the darkness are
  floats, so the value given is narrowed. \<^verbatim>\<open>setIsolineWidth(16777217, false)\<close> stores
  \<open>16777216\<close>, and so does \<^verbatim>\<open>setIsolineDarkness(16777217)\<close>.
\<close>

theorem isoline_setters_narrow_counterexample:
  "inFloatRange 16777217
   \<and> scaled (isolineWidth (setIsolineWidth 16777217 False exampleField)) = 16777216
   \<and> scaled (isolineWidth (setIsolineWidth 16777217 False exampleField)) \<noteq> 16777217
   \<and> isolineDarkness (setIsolineDarkness 16777217 exampleField) = 16777216
   \<and> isolineDarkness (setIsolineDarkness 16777217 exampleField) \<noteq> 16777217"
  by (simp add: setIsolineWidth_def setIsolineDarkness_def setIsolinesEnabled_def
        requestRedraw_def refresh_def Let_def toFloat_16777217 inFloatRange_def)

text \<open>
  C7, amended. \<^verbatim>\<open>setIsolineWidth(size, isRelative)\<close> stores \<open>size\<close> narrowed to float with
  the tag \<open>isRelative\<close>, and \<^verbatim>\<open>setIsolineDarkness(value)\<close> stores \<open>value\<close> narrowed to float
  (the value itself when it is a float); after either call isolines are enabled and a
  redraw is requested. The flag is switched on through \<^verbatim>\<open>setIsolinesEnabled(true)\<close> (one
  refresh of the owner) only when it was off; when it was on, it is not touched.
\<close>

theorem isoline_setters_store_and_enable:
  "(inFloatRange w \<longrightarrow>
      isolineWidth (setIsolineWidth w isRelative s)
        = \<lparr>relativeFlag = isRelative, scaled = toFloat w\<rparr>
      \<and> (toFloat w = w \<longrightarrow>
           isolineWidth (setIsolineWidth w isRelative s)
             = \<lparr>relativeFlag = isRelative, scaled = w\<rparr>))
   \<and> isolinesEnabled (setIsolineWidth w isRelative s)
   \<and> redrawRequested (setIsolineWidth w isRelative s)
   \<and> refreshCount (setIsolineWidth w isRelative s)
       = (if isolinesEnabled s then refreshCount s else Suc (refreshCount s))
   \<and> (inFloatRange d \<longrightarrow>
      isolineDarkness (setIsolineDarkness d s) = toFloat d
      \<and> (toFloat d = d \<longrightarrow> isolineDarkness (setIsolineDarkness d s) = d))
   \<and> isolinesEnabled (setIsolineDarkness d s)
   \<and> redrawRequested (setIsolineDarkness d s)
   \<and> refreshCount (setIsolineDarkness d s)
       = (if isolinesEnabled s then refreshCount s else Suc (refreshCount s))"
  by (simp add: setIsolineWidth_def setIsolineDarkness_def setIsolinesEnabled_def
        requestRedraw_def refresh_def Let_def)

theorem isoline_setters_store_and_enable_witness:
  "inFloatRange 5 \<and> toFloat 5 = 5 \<and> inFloatRange 3 \<and> toFloat 3 = 3
   \<and> \<not> isolinesEnabled exampleField
   \<and> isolineWidth (setIsolineWidth 5 True exampleField) = \<lparr>relativeFlag = True, scaled = 5\<rparr>
   \<and> isolinesEnabled (setIsolineWidth 5 True exampleField)
   \<and> refreshCount (setIsolineWidth 5 True exampleField) = 1
   \<and> isolineDarkness (setIsolineDarkness 3 exampleField) = 3
   \<and> isolinesEnabled (setIsolineDarkness 3 exampleField)"
proof -
  have r: "inFloatRange 5" "inFloatRange 3"
    by (simp_all add: inFloatRange_def)
  have e: "\<not> isolinesEnabled exampleField" "refreshCount exampleField = 0"
    by (simp_all add: exampleField_eq)
  show ?thesis
    using r e toFloat_5 toFloat_3
      isoline_setters_store_and_enable [where w = 5 and isRelative = True and d = 3
        and s = exampleField]
    by simp
qed

text \<open>
  C8, as the spec states it, fails: the constructor does not create the render buffer, so
  on the object built from \<open>1, 2, 3\<close> a call of \<^verbatim>\<open>renderBufferDataExternallyUpdated()\<close>
  empties \<open>values\<close> and the next \<^verbatim>\<open>nValueSize()\<close> throws instead of returning 3.
\<close>

theorem size_after_external_update_counterexample:
  "values exampleField = [1, 2, 3]
   \<and> values (renderBufferDataExternallyUpdated exampleField) = []
   \<and> nValueSize (renderBufferDataExternallyUpdated exampleField)
       = Inl (RuntimeError ''buffer is not allocated when it should be'')
   \<and> nValueSize (renderBufferDataExternallyUpdated exampleField) \<noteq> Inr 3"
  by (simp add: exampleField_eq renderBufferDataExternallyUpdated_def requestRedraw_def
        nValueSize_def valuesStoredInMemory_def)

text \<open>
  C8, amended. On an object constructed from \<open>n\<close> values whose render buffer has been
  created and filled by \<^verbatim>\<open>getScalarRenderBuffer()\<close>, a call of
  \<^verbatim>\<open>renderBufferDataExternallyUpdated()\<close> leaves \<open>values\<close> empty and \<open>dataRange\<close> and
  \<open>vizRange\<close> as the constructor set them, and \<^verbatim>\<open>nValueSize()\<close> then returns \<open>n\<close>, read from
  the device buffer.
\<close>

theorem external_update_after_buffer_filled:
  "values (renderBufferDataExternallyUpdated
            (snd (getScalarRenderBuffer forceRefillDefault
                   (ScalarQuantity_ctor robustMinMax defaultColorMap cache vs dt)))) = []
   \<and> dataRange (renderBufferDataExternallyUpdated
            (snd (getScalarRenderBuffer forceRefillDefault
                   (ScalarQuantity_ctor robustMinMax defaultColorMap cache vs dt))))
       = dataRange (ScalarQuantity_ctor robustMinMax defaultColorMap cache vs dt)
   \<and> vizRange (renderBufferDataExternallyUpdated
            (snd (getScalarRenderBuffer forceRefillDefault
                   (ScalarQuantity_ctor robustMinMax defaultColorMap cache vs dt))))
       = vizRange (ScalarQuantity_ctor robustMinMax defaultColorMap cache vs dt)
   \<and> nValueSize (renderBufferDataExternallyUpdated
            (snd (getScalarRenderBuffer forceRefillDefault
                   (ScalarQuantity_ctor robustMinMax defaultColorMap cache vs dt))))
       = Inr (length vs)"
  by (simp add: renderBufferDataExternallyUpdated_def requestRedraw_def
        getScalarRenderBuffer_def Let_def ensureRenderBuffersFilled_frame
        ensureRenderBuffersFilled_fresh ctor_fields nValueSize_authoritative)

text \<open>
  C9. A successful \<^verbatim>\<open>updateData(newValues)\<close> replaces \<open>values\<close> by \<open>newValues\<close> and leaves
  \<open>dataRange\<close> and \<open>vizRange\<close> equal to what they were before the call.
\<close>

theorem updateData_keeps_ranges:
  assumes "fst (updateData newValues s) = None"
  shows "values (snd (updateData newValues s)) = newValues
       \<and> dataRange (snd (updateData newValues s)) = dataRange s
       \<and> vizRange (snd (updateData newValues s)) = vizRange s"
  using assms
  by (auto simp: updateData_def dataUpdated_def standardizeArray_def requestRedraw_frame
        ensureRenderBuffersFilled_frame split: sum.splits option.splits)

theorem updateData_keeps_ranges_witness:
  "fst (updateData [4, 5, 6] exampleField) = None
   \<and> values (snd (updateData [4, 5, 6] exampleField)) = [4, 5, 6]
   \<and> dataRange (snd (updateData [4, 5, 6] exampleField)) = (1, 3)
   \<and> vizRange (snd (updateData [4, 5, 6] exampleField)) = (1, 3)"
proof -
  have h: "fst (updateData [4, 5, 6] exampleField) = None"
    by (simp add: exampleField_eq updateData_def nValueSize_def valuesStoredInMemory_def
          validateSize_def)
  show ?thesis
    using h updateData_keeps_ranges [OF h] by (simp add: exampleField_eq)
qed

text \<open>
  C10. \<^verbatim>\<open>addScalarRules(rules)\<close> returns the given rules in their order, then
  \<open>SHADE_COLORMAP_VALUE\<close>, then \<open>ISOLINE_STRIPE_VALUECOLOR\<close> exactly when isolines are
  enabled, and nothing else.
\<close>

theorem addScalarRules_result:
  "addScalarRules s rules =
     rules @ ''SHADE_COLORMAP_VALUE'' #
       (if isolinesEnabled s then [''ISOLINE_STRIPE_VALUECOLOR''] else [])"
  by (simp add: addScalarRules_def Let_def)

end
